theory Spec2Isabelle
  imports Complex_Main "HOL-Library.Multiset" "HOL-Library.Sublist"
begin

section \<open>Data model\<close>

text \<open>
  The repository is two Python scripts, \<^verbatim>\<open>Edge_Server_AI_Trained.py\<close> and
  \<^verbatim>\<open>Edge_Server_AI_CONVERT_to_TFlite.py\<close>. Each is a straight-line module body of
  library calls. The embedding keeps every call of the scripts, with the arguments the
  scripts pass, and takes the behaviour of the libraries (NumPy decoding, the random
  permutation, Keras validation and training, HDF5 and TFLite serialisation, the
  operating system) as a parameter \<open>L\<close>.
\<close>

type_synonym path = string
type_synonym bytes = string

text \<open>A NumPy array: element type tag, shape tuple, and the elements in row-major order.\<close>

record ndarray =
  dtype :: string
  shape :: "nat list"
  elems :: "rat list"

text \<open>
  A symbolic Keras tensor of the functional API: \<^verbatim>\<open>Input(shape=s)\<close>, or the result of
  applying \<^verbatim>\<open>Dense(units, activation=a)\<close> to an earlier tensor.
\<close>

datatype tensor = Input "nat list" | Dense nat string tensor

datatype optimizer = Adam rat

record kmodel =
  inputs :: tensor
  outputs :: tensor
  compiled :: "(optimizer \<times> string) option"
  weights :: "rat list"

datatype optimize = DEFAULT

text \<open>A Python function object of the conversion script, referred to by its name.\<close>

datatype callable = representative_data_gen_ref

record converter =
  keras_model :: kmodel
  optimizations :: "optimize list"
  representative_dataset :: "callable option"

text \<open>One library call of a script, with the arguments the script passes.\<close>

datatype event =
    NpLoad path
  | TrainTestSplit ndarray rat nat
  | KInput "nat list"
  | KDense nat string tensor
  | KModel tensor tensor
  | KAdam rat
  | KCompile kmodel optimizer string
  | KFit kmodel ndarray ndarray "ndarray \<times> ndarray" nat nat
  | KSave kmodel path
  | KLoadModel path
  | FromKerasModel kmodel
  | Convert converter
  | OpenWb path
  | FileWrite path bytes

text \<open>
  The exceptions: a missing file (\<^verbatim>\<open>FileNotFoundError\<close> of \<^verbatim>\<open>np.load\<close>, \<^verbatim>\<open>OSError\<close> of
  \<^verbatim>\<open>load_model\<close>), the two rejections of \<^verbatim>\<open>train_test_split\<close>, NumPy's
  \<^verbatim>\<open>IndexError\<close> for indexing a 0-dimensional array, Python's \<^verbatim>\<open>IndexError\<close> for a tuple
  index out of range, and any other exception a library call raises.
\<close>

datatype exn =
    NoSuchFile path
  | SklearnTypeError
  | SklearnValueError
  | NumpyIndexError
  | TupleIndexError
  | LibraryError event string

text \<open>
  The world a script runs in: the file system, the calls made so far, and the lines
  printed to standard output.
\<close>

record world =
  files :: "path \<rightharpoonup> bytes"
  trace :: "event list"
  stdout :: "string list"

text \<open>
  The libraries. \<open>raises fs ev\<close> is the exception text when the library call \<open>ev\<close>
  fails on file system \<open>fs\<close> for a reason of its own (validation, decoding, I/O);
  the other fields give the results of the calls whose result the scripts only pass on.
  The float literals of the scripts (\<^verbatim>\<open>0.2\<close>, \<^verbatim>\<open>1e-3\<close>) and the array elements are
  rationals: the scripts do no arithmetic on them.
\<close>

record lib =
  raises :: "(path \<rightharpoonup> bytes) \<Rightarrow> event \<Rightarrow> string option"
  npy_decode :: "bytes \<Rightarrow> ndarray"
  permutation :: "nat \<Rightarrow> nat \<Rightarrow> nat list"
  np_cast :: "string \<Rightarrow> rat \<Rightarrow> rat"
  init_weights :: "tensor \<Rightarrow> rat list"
  fit_weights :: "kmodel \<Rightarrow> ndarray \<Rightarrow> ndarray \<Rightarrow> ndarray \<times> ndarray \<Rightarrow> nat \<Rightarrow> nat \<Rightarrow> rat list"
  h5_encode :: "kmodel \<Rightarrow> bytes"
  h5_decode :: "bytes \<Rightarrow> kmodel"
  calibration_runs :: "converter \<Rightarrow> nat"
  tflite_bytes :: "converter \<Rightarrow> ndarray list list list \<Rightarrow> bytes"

section \<open>Exceptions and sequencing\<close>

text \<open>
  A statement either raises or returns, and leaves a world behind in both cases. Neither
  script has a \<^verbatim>\<open>try\<close>, so sequencing is the only combinator: the first exception
  ends the run.
\<close>

type_synonym 'a py = "world \<Rightarrow> (exn + 'a) \<times> world"

definition ret :: "'a \<Rightarrow> 'a py" where
  "ret a w = (Inr a, w)"

definition bind :: "'a py \<Rightarrow> ('a \<Rightarrow> 'b py) \<Rightarrow> 'b py" where
  "bind m f w = (case m w of (Inl e, w') \<Rightarrow> (Inl e, w') | (Inr a, w') \<Rightarrow> f a w')"

definition lift :: "exn + 'a \<Rightarrow> 'a py" where
  "lift r w = (r, w)"

text \<open>A library call: it is recorded, and it raises when the library says so.\<close>

definition call :: "lib \<Rightarrow> event \<Rightarrow> unit py" where
  "call L ev w =
     (let w' = w\<lparr>trace := trace w @ [ev]\<rparr>
      in case raises L (files w) ev of
           Some msg \<Rightarrow> (Inl (LibraryError ev msg), w')
         | None \<Rightarrow> (Inr (), w'))"

definition print :: "string \<Rightarrow> unit py" where
  "print s w = (Inr (), w\<lparr>stdout := stdout w @ [s]\<rparr>)"

section \<open>NumPy and scikit-learn operations used by the scripts\<close>

text \<open>\<^verbatim>\<open>np.load(p)\<close>: the file must exist and decode.\<close>

definition np_load :: "lib \<Rightarrow> path \<Rightarrow> ndarray py" where
  "np_load L p w =
     (case files w p of
        None \<Rightarrow> (Inl (NoSuchFile p), w\<lparr>trace := trace w @ [NpLoad p]\<rparr>)
      | Some b \<Rightarrow> bind (call L (NpLoad p)) (\<lambda>_. ret (npy_decode L b)) w)"

text \<open>The number of elements of one item along the first axis.\<close>

definition row_size :: "ndarray \<Rightarrow> nat" where
  "row_size a = prod_list (tl (shape a))"

definition row :: "ndarray \<Rightarrow> nat \<Rightarrow> rat list" where
  "row a i = take (row_size a) (drop (i * row_size a) (elems a))"



text \<open>
  \<^verbatim>\<open>a[i:j]\<close> for non-negative \<open>i\<close>, \<open>j\<close>: a slice along the first axis, with both bounds
  clipped to the length; a 0-dimensional array cannot be indexed.
\<close>

definition np_slice :: "ndarray \<Rightarrow> nat \<Rightarrow> nat \<Rightarrow> exn + ndarray" where
  "np_slice a i j =
     (case shape a of
        [] \<Rightarrow> Inl NumpyIndexError
      | n # rest \<Rightarrow>
          (let start = min i n; stop = max start (min j n)
           in Inr (a\<lparr>shape := (stop - start) # rest,
                     elems := take ((stop - start) * prod_list rest)
                                (drop (start * prod_list rest) (elems a))\<rparr>)))"

definition astype :: "lib \<Rightarrow> string \<Rightarrow> ndarray \<Rightarrow> ndarray" where
  "astype L t a = a\<lparr>dtype := t, elems := map (np_cast L t) (elems a)\<rparr>"

text \<open>\<^verbatim>\<open>a[idx]\<close> for a list of row indices.\<close>

definition take_rows :: "ndarray \<Rightarrow> nat list \<Rightarrow> ndarray" where
  "take_rows a idx = a\<lparr>shape := length idx # tl (shape a), elems := concat (map (row a) idx)\<rparr>"

text \<open>
  \<^verbatim>\<open>train_test_split(data, test_size=t, random_state=seed)\<close> of scikit-learn, for a
  fractional test size and no train size: the test set takes the first
  \<open>ceil (t * n)\<close> indices of the seeded permutation of \<open>range(n)\<close>, the training set the
  others; an array without a first axis and an empty training set are rejected.
  The result is the pair (train, test).
\<close>

definition train_test_split :: "lib \<Rightarrow> ndarray \<Rightarrow> rat \<Rightarrow> nat \<Rightarrow> exn + ndarray \<times> ndarray" where
  "train_test_split L a t seed =
     (case shape a of
        [] \<Rightarrow> Inl SklearnTypeError
      | n # rest \<Rightarrow>
          (let n_test = nat \<lceil>t * of_nat n\<rceil>;
               n_train = n - n_test
           in if n_train = 0 then Inl SklearnValueError
              else (let perm = permutation L seed n;
                        ind_test = take n_test perm;
                        ind_train = take n_train (drop n_test perm)
                    in Inr (take_rows a ind_train, take_rows a ind_test))))"

section \<open>The training script\<close>

text \<open>\<^verbatim>\<open>X_train.shape[1]\<close>: indexing the shape tuple.\<close>

definition shape_1 :: "ndarray \<Rightarrow> exn + nat" where
  "shape_1 a = (case shape a of _ # d # _ \<Rightarrow> Inr d | _ \<Rightarrow> Inl TupleIndexError)"

definition k_input :: "lib \<Rightarrow> nat list \<Rightarrow> tensor py" where
  "k_input L s = bind (call L (KInput s)) (\<lambda>_. ret (Input s))"

definition k_dense :: "lib \<Rightarrow> nat \<Rightarrow> string \<Rightarrow> tensor \<Rightarrow> tensor py" where
  "k_dense L u act x = bind (call L (KDense u act x)) (\<lambda>_. ret (Dense u act x))"

definition k_model :: "lib \<Rightarrow> tensor \<Rightarrow> tensor \<Rightarrow> kmodel py" where
  "k_model L i out =
     bind (call L (KModel i out)) (\<lambda>_.
       ret \<lparr>inputs = i, outputs = out, compiled = None, weights = init_weights L out\<rparr>)"

definition k_adam :: "lib \<Rightarrow> rat \<Rightarrow> optimizer py" where
  "k_adam L lr = bind (call L (KAdam lr)) (\<lambda>_. ret (Adam lr))"

definition k_compile :: "lib \<Rightarrow> kmodel \<Rightarrow> optimizer \<Rightarrow> string \<Rightarrow> kmodel py" where
  "k_compile L m opt loss =
     bind (call L (KCompile m opt loss)) (\<lambda>_. ret (m\<lparr>compiled := Some (opt, loss)\<rparr>))"

definition k_fit :: "lib \<Rightarrow> kmodel \<Rightarrow> ndarray \<Rightarrow> ndarray \<Rightarrow> ndarray \<times> ndarray \<Rightarrow> nat \<Rightarrow> nat \<Rightarrow> kmodel py" where
  "k_fit L m x y val epochs batch_size =
     bind (call L (KFit m x y val epochs batch_size)) (\<lambda>_.
       ret (m\<lparr>weights := fit_weights L m x y val epochs batch_size\<rparr>))"

definition k_save :: "lib \<Rightarrow> kmodel \<Rightarrow> path \<Rightarrow> unit py" where
  "k_save L m p =
     bind (call L (KSave m p)) (\<lambda>_ w. (Inr (), w\<lparr>files := (files w)(p \<mapsto> h5_encode L m)\<rparr>))"

text \<open>The module body of \<^verbatim>\<open>Edge_Server_AI_Trained.py\<close>, lines 15 to 30.\<close>

definition train_script :: "lib \<Rightarrow> unit py" where
  "train_script L =
     bind (np_load L ''data/windows_features.npy'') (\<lambda>data.
     bind (call L (TrainTestSplit data (2 / 10) 42)) (\<lambda>_.
     bind (lift (train_test_split L data (2 / 10) 42)) (\<lambda>(X_train, X_val).
     bind (lift (shape_1 X_train)) (\<lambda>input_dim.
     bind (k_input L [input_dim]) (\<lambda>inp.
     bind (k_dense L 64 ''relu'' inp) (\<lambda>h.
     bind (k_dense L 32 ''relu'' h) (\<lambda>h.
     bind (k_dense L 16 ''relu'' h) (\<lambda>z.
     bind (k_dense L 32 ''relu'' z) (\<lambda>h2.
     bind (k_dense L 64 ''relu'' h2) (\<lambda>h2.
     bind (k_dense L input_dim ''linear'' h2) (\<lambda>out.
     bind (k_model L inp out) (\<lambda>model.
     bind (k_adam L (1 / 1000)) (\<lambda>opt.
     bind (k_compile L model opt ''mse'') (\<lambda>model.
     bind (k_fit L model X_train X_train (X_val, X_val) 50 64) (\<lambda>model.
     bind (k_save L model ''models/autoencoder.h5'') (\<lambda>_.
     print ''Saved Keras model -> models/autoencoder.h5''))))))))))))))))"

definition start :: "(path \<rightharpoonup> bytes) \<Rightarrow> world" where
  "start fs = \<lparr>files = fs, trace = [], stdout = []\<rparr>"

definition run_train :: "lib \<Rightarrow> (path \<rightharpoonup> bytes) \<Rightarrow> (exn + unit) \<times> world" where
  "run_train L fs = train_script L (start fs)"


section \<open>The conversion script\<close>

text \<open>
  The loop of \<^verbatim>\<open>representative_data_gen\<close> over the indices still to visit: each step
  yields the one-element list \<^verbatim>\<open>[data[i:i+1].astype("float32")]\<close>.
\<close>

fun gen_items :: "lib \<Rightarrow> ndarray \<Rightarrow> nat list \<Rightarrow> exn + ndarray list list" where
  "gen_items L data [] = Inr []"
| "gen_items L data (i # is) =
     (case np_slice data i (i + 1) of
        Inl e \<Rightarrow> Inl e
      | Inr s \<Rightarrow>
          (case gen_items L data is of
             Inl e \<Rightarrow> Inl e
           | Inr rest \<Rightarrow> Inr ([astype L ''float32'' s] # rest)))"

text \<open>\<^verbatim>\<open>representative_data_gen()\<close>, run to exhaustion: the list of the items it yields.\<close>

definition representative_data_gen :: "lib \<Rightarrow> ndarray list list py" where
  "representative_data_gen L =
     bind (np_load L ''data/windows_features.npy'') (\<lambda>data.
     lift (gen_items L data [0..<100]))"

fun invoke :: "lib \<Rightarrow> callable \<Rightarrow> ndarray list list py" where
  "invoke L representative_data_gen_ref = representative_data_gen L"

definition k_load_model :: "lib \<Rightarrow> path \<Rightarrow> kmodel py" where
  "k_load_model L p w =
     (case files w p of
        None \<Rightarrow> (Inl (NoSuchFile p), w\<lparr>trace := trace w @ [KLoadModel p]\<rparr>)
      | Some b \<Rightarrow> bind (call L (KLoadModel p)) (\<lambda>_. ret (h5_decode L b)) w)"

definition from_keras_model :: "lib \<Rightarrow> kmodel \<Rightarrow> converter py" where
  "from_keras_model L m =
     bind (call L (FromKerasModel m)) (\<lambda>_.
       ret \<lparr>keras_model = m, optimizations = [], representative_dataset = None\<rparr>)"

text \<open>
  The converter consumes its representative dataset as often as the library decides
  (\<open>calibration_runs\<close>); every pass calls the generator function anew.
\<close>

fun calibrate :: "lib \<Rightarrow> callable option \<Rightarrow> nat \<Rightarrow> ndarray list list list py" where
  "calibrate L g 0 = ret []"
| "calibrate L None (Suc k) = ret []"
| "calibrate L (Some g) (Suc k) =
     bind (invoke L g) (\<lambda>items.
     bind (calibrate L (Some g) k) (\<lambda>rest.
     ret (items # rest)))"

definition convert :: "lib \<Rightarrow> converter \<Rightarrow> bytes py" where
  "convert L c =
     bind (call L (Convert c)) (\<lambda>_.
     bind (calibrate L (representative_dataset c) (calibration_runs L c)) (\<lambda>samples.
     ret (tflite_bytes L c samples)))"

text \<open>\<^verbatim>\<open>open(p, "wb")\<close> creates or truncates the file; the handle is the path.\<close>

definition open_wb :: "lib \<Rightarrow> path \<Rightarrow> path py" where
  "open_wb L p =
     bind (call L (OpenWb p)) (\<lambda>_ w. (Inr p, w\<lparr>files := (files w)(p \<mapsto> [])\<rparr>))"

definition file_write :: "lib \<Rightarrow> path \<Rightarrow> bytes \<Rightarrow> unit py" where
  "file_write L p b =
     bind (call L (FileWrite p b)) (\<lambda>_ w.
       (Inr (), w\<lparr>files := (files w)(p \<mapsto> (case files w p of None \<Rightarrow> b | Some old \<Rightarrow> old @ b))\<rparr>))"

text \<open>The module body of \<^verbatim>\<open>Edge_Server_AI_CONVERT_to_TFlite.py\<close>, lines 6 to 19.\<close>

definition convert_script :: "lib \<Rightarrow> unit py" where
  "convert_script L =
     bind (k_load_model L ''models/autoencoder.h5'') (\<lambda>model.
     bind (from_keras_model L model) (\<lambda>converter.
     bind (ret (converter\<lparr>optimizations := [DEFAULT]\<rparr>)) (\<lambda>converter.
     bind (ret (converter\<lparr>representative_dataset := Some representative_data_gen_ref\<rparr>)) (\<lambda>converter.
     bind (convert L converter) (\<lambda>tflite_model.
     bind (open_wb L ''models/autoencoder.tflite'') (\<lambda>f.
     bind (file_write L f tflite_model) (\<lambda>_.
     print ''Wrote models/autoencoder.tflite'')))))))"

definition run_convert :: "lib \<Rightarrow> (path \<rightharpoonup> bytes) \<Rightarrow> (exn + unit) \<times> world" where
  "run_convert L fs = convert_script L (start fs)"

section \<open>A concrete library and concrete files\<close>

text \<open>
  A library in which no call fails for a reason of its own: file contents \<open>''1d''\<close> decode
  to a one-dimensional array of five numbers, every other content to a 5 x 2 array; the
  seeded permutation reverses the range; training and serialisation return fixed values.
\<close>

definition array_5x2 :: ndarray where
  "array_5x2 = \<lparr>dtype = ''float64'', shape = [5, 2], elems = [0, 1, 2, 3, 4, 5, 6, 7, 8, 9]\<rparr>"

definition array_5 :: ndarray where
  "array_5 = \<lparr>dtype = ''float64'', shape = [5], elems = [0, 1, 2, 3, 4]\<rparr>"

definition model_0 :: kmodel where
  "model_0 = \<lparr>inputs = Input [2], outputs = Dense 2 ''linear'' (Input [2]),
              compiled = None, weights = []\<rparr>"

definition lib_0 :: lib where
  "lib_0 = \<lparr>raises = (\<lambda>fs ev. None),
            npy_decode = (\<lambda>b. if b = ''1d'' then array_5 else array_5x2),
            permutation = (\<lambda>seed n. rev [0..<n]),
            np_cast = (\<lambda>t x. x),
            init_weights = (\<lambda>t. []),
            fit_weights = (\<lambda>m x y val epochs batch_size. [1]),
            h5_encode = (\<lambda>m. ''h5''),
            h5_decode = (\<lambda>b. model_0),
            calibration_runs = (\<lambda>c. 1),
            tflite_bytes = (\<lambda>c samples. ''tfl'')\<rparr>"

definition files_2d :: "path \<rightharpoonup> bytes" where
  "files_2d = [''data/windows_features.npy'' \<mapsto> ''2d'']"


definition files_h5 :: "path \<rightharpoonup> bytes" where
  "files_h5 = [''data/windows_features.npy'' \<mapsto> ''2d'', ''models/autoencoder.h5'' \<mapsto> ''h5'']"


section \<open>The runs of the scripts, call by call\<close>

text \<open>A list of library calls made one after the other; the first one that raises ends it.\<close>

fun calls :: "lib \<Rightarrow> event list \<Rightarrow> unit py" where
  "calls L [] = ret ()"
| "calls L (ev # evs) = bind (call L ev) (\<lambda>_. calls L evs)"

text \<open>
  The values the training script holds after each of its statements, as functions of the
  input dimension and the two halves of the split: the five hidden layers, the model as
  built, as compiled and as trained, and the calls from \<^verbatim>\<open>Input\<close> to \<^verbatim>\<open>fit\<close>.
\<close>

definition hidden :: "nat \<Rightarrow> tensor" where
  "hidden d = Dense 64 ''relu'' (Dense 32 ''relu'' (Dense 16 ''relu'' (Dense 32 ''relu'' (Dense 64 ''relu'' (Input [d])))))"

definition built_model :: "lib \<Rightarrow> nat \<Rightarrow> kmodel" where
  "built_model L d = \<lparr>inputs = Input [d], outputs = Dense d ''linear'' (hidden d), compiled = None,
      weights = init_weights L (Dense d ''linear'' (hidden d))\<rparr>"

definition compiled_model :: "lib \<Rightarrow> nat \<Rightarrow> kmodel" where
  "compiled_model L d = (built_model L d)\<lparr>compiled := Some (Adam (1 / 1000), ''mse'')\<rparr>"

definition trained_model :: "lib \<Rightarrow> ndarray \<Rightarrow> ndarray \<Rightarrow> nat \<Rightarrow> kmodel" where
  "trained_model L xt xv d = (compiled_model L d)\<lparr>weights := fit_weights L (compiled_model L d) xt xt (xv, xv) 50 64\<rparr>"

definition train_calls :: "lib \<Rightarrow> ndarray \<Rightarrow> ndarray \<Rightarrow> nat \<Rightarrow> event list" where
  "train_calls L xt xv d =
    [KInput [d],
     KDense 64 ''relu'' (Input [d]),
     KDense 32 ''relu'' (Dense 64 ''relu'' (Input [d])),
     KDense 16 ''relu'' (Dense 32 ''relu'' (Dense 64 ''relu'' (Input [d]))),
     KDense 32 ''relu'' (Dense 16 ''relu'' (Dense 32 ''relu'' (Dense 64 ''relu'' (Input [d])))),
     KDense 64 ''relu'' (Dense 32 ''relu'' (Dense 16 ''relu'' (Dense 32 ''relu'' (Dense 64 ''relu'' (Input [d]))))),
     KDense d ''linear'' (hidden d),
     KModel (Input [d]) (Dense d ''linear'' (hidden d)),
     KAdam (1 / 1000),
     KCompile (built_model L d) (Adam (1 / 1000)) ''mse'',
     KFit (compiled_model L d) xt xt (xv, xv) 50 64]"

text \<open>The literals of the two scripts.\<close>

abbreviation npy_path :: path where "npy_path \<equiv> ''data/windows_features.npy''"

abbreviation h5_path :: path where "h5_path \<equiv> ''models/autoencoder.h5''"

abbreviation tflite_path :: path where "tflite_path \<equiv> ''models/autoencoder.tflite''"

abbreviation wrote_msg :: string where "wrote_msg \<equiv> ''Wrote models/autoencoder.tflite''"

abbreviation saved_msg :: string where "saved_msg \<equiv> ''Saved Keras model -> models/autoencoder.h5''"

text \<open>The calls of the training script after \<^verbatim>\<open>X_train.shape[1]\<close>, up to \<^verbatim>\<open>model.save\<close>.\<close>

definition train_tail :: "lib \<Rightarrow> ndarray \<Rightarrow> ndarray \<Rightarrow> nat \<Rightarrow> event list" where
  "train_tail L xt xv d = train_calls L xt xv d @ [KSave (trained_model L xt xv d) h5_path]"

text \<open>What one run of the generator yields on a file system.\<close>

definition gen_result :: "lib \<Rightarrow> (path \<rightharpoonup> bytes) \<Rightarrow> exn + ndarray list list" where
  "gen_result L fs =
     (case fs npy_path of
        None \<Rightarrow> Inl (NoSuchFile npy_path)
      | Some b \<Rightarrow>
          (case raises L fs (NpLoad npy_path) of
             Some msg \<Rightarrow> Inl (LibraryError (NpLoad npy_path) msg)
           | None \<Rightarrow> gen_items L (npy_decode L b) [0..<100]))"

text \<open>The converter as the conversion script has configured it when it calls \<^verbatim>\<open>convert()\<close>.\<close>

definition the_converter :: "lib \<Rightarrow> bytes \<Rightarrow> converter" where
  "the_converter L b = \<lparr>keras_model = h5_decode L b, optimizations = [DEFAULT],
      representative_dataset = Some representative_data_gen_ref\<rparr>"

text \<open>The first three calls of the conversion script.\<close>

definition convert_head :: "lib \<Rightarrow> bytes \<Rightarrow> event list" where
  "convert_head L b = [KLoadModel h5_path, FromKerasModel (h5_decode L b), Convert (the_converter L b)]"

text \<open>The data the converter gets from \<open>k\<close> passes over the representative dataset.\<close>

definition calibration :: "lib \<Rightarrow> (path \<rightharpoonup> bytes) \<Rightarrow> nat \<Rightarrow> exn + ndarray list list list" where
  "calibration L fs k =
     (case k of
        0 \<Rightarrow> Inr []
      | Suc _ \<Rightarrow> (case gen_result L fs of Inl e \<Rightarrow> Inl e | Inr items \<Rightarrow> Inr (replicate k items)))"

section \<open>Definitions for the properties\<close>

definition xt_0 :: ndarray where
  "xt_0 = \<lparr>dtype = ''float64'', shape = [4, 2], elems = [6, 7, 4, 5, 2, 3, 0, 1]\<rparr>"

definition xv_0 :: ndarray where
  "xv_0 = \<lparr>dtype = ''float64'', shape = [1, 2], elems = [8, 9]\<rparr>"

fun fixed_hyperparameters :: "event \<Rightarrow> bool" where
  "fixed_hyperparameters (KAdam lr) = (lr = 1 / 1000)"
| "fixed_hyperparameters (KCompile m opt loss) = (opt = Adam (1 / 1000) \<and> loss = ''mse'')"
| "fixed_hyperparameters (KFit m x y v epochs batch_size) =
     (compiled m = Some (Adam (1 / 1000), ''mse'') \<and> epochs = 50 \<and> batch_size = 64)"
| "fixed_hyperparameters ev = True"

fun is_training_call :: "event \<Rightarrow> bool" where
  "is_training_call (KCompile m opt loss) = True"
| "is_training_call (KFit m x y v epochs batch_size) = True"
| "is_training_call ev = False"

text \<open>What the generator yields on the 5 x 2 array.\<close>

definition items_0 :: "ndarray list list" where
  "items_0 = map (\<lambda>i. [astype lib_0 ''float32''
       (array_5x2\<lparr>shape := (if i < 5 then 1 else 0) # [2], elems := (if i < 5 then row array_5x2 i else [])\<rparr>)])
     [0..<100]"






text \<open>The name of the library function a call invokes.\<close>

fun call_name :: "event \<Rightarrow> string" where
  "call_name (NpLoad p) = ''np.load''"
| "call_name (TrainTestSplit a t seed) = ''train_test_split''"
| "call_name (KInput s) = ''Input''"
| "call_name (KDense u act x) = ''Dense''"
| "call_name (KModel i out) = ''Model''"
| "call_name (KAdam lr) = ''Adam''"
| "call_name (KCompile m opt loss) = ''compile''"
| "call_name (KFit m x y v epochs batch_size) = ''fit''"
| "call_name (KSave m p) = ''save''"
| "call_name (KLoadModel p) = ''load_model''"
| "call_name (FromKerasModel m) = ''from_keras_model''"
| "call_name (Convert c) = ''convert''"
| "call_name (OpenWb p) = ''open''"
| "call_name (FileWrite p b) = ''write''"

text \<open>
  The order of the calls in the two scripts; \<open>k\<close> is the number of passes the converter
  makes over the representative dataset, each of which loads the array.
\<close>

definition train_order :: "string list" where
  "train_order = [''np.load'', ''train_test_split'', ''Input'', ''Dense'', ''Dense'', ''Dense'',
     ''Dense'', ''Dense'', ''Dense'', ''Model'', ''Adam'', ''compile'', ''fit'', ''save'']"

definition convert_order :: "nat \<Rightarrow> string list" where
  "convert_order k = [''load_model'', ''from_keras_model'', ''convert''] @ replicate k ''np.load''
     @ [''open'', ''write'']"
section \<open>Sequencing lemmas\<close>

lemma bind_ret [simp]: "bind (ret a) f = f a"
  by (rule ext) (simp add: bind_def ret_def)

lemma bind_assoc [simp]: "bind (bind m f) g = bind m (\<lambda>a. bind (f a) g)"
  by (rule ext) (simp add: bind_def split: prod.splits sum.splits)

lemma train_body_calls:
  "bind (k_input L [d]) (\<lambda>inp.
     bind (k_dense L 64 ''relu'' inp) (\<lambda>h.
     bind (k_dense L 32 ''relu'' h) (\<lambda>h.
     bind (k_dense L 16 ''relu'' h) (\<lambda>z.
     bind (k_dense L 32 ''relu'' z) (\<lambda>h2.
     bind (k_dense L 64 ''relu'' h2) (\<lambda>h2.
     bind (k_dense L d ''linear'' h2) (\<lambda>out.
     bind (k_model L inp out) (\<lambda>model.
     bind (k_adam L (1 / 1000)) (\<lambda>opt.
     bind (k_compile L model opt ''mse'') (\<lambda>model.
     bind (k_fit L model xt xt (xv, xv) 50 64) G))))))))))
   = bind (calls L (train_calls L xt xv d)) (\<lambda>_. G (trained_model L xt xv d))"
  by (simp add: k_input_def k_dense_def k_model_def k_adam_def k_compile_def k_fit_def
        train_calls_def trained_model_def compiled_model_def built_model_def hidden_def)

lemma train_script_nf:
  "train_script L =
     bind (np_load L ''data/windows_features.npy'') (\<lambda>data.
     bind (call L (TrainTestSplit data (2 / 10) 42)) (\<lambda>_.
     bind (lift (train_test_split L data (2 / 10) 42)) (\<lambda>(X_train, X_val).
     bind (lift (shape_1 X_train)) (\<lambda>input_dim.
     bind (calls L (train_calls L X_train X_val input_dim)) (\<lambda>_.
     bind (k_save L (trained_model L X_train X_val input_dim) ''models/autoencoder.h5'') (\<lambda>_.
     print ''Saved Keras model -> models/autoencoder.h5''))))))"
  unfolding train_script_def by (simp only: train_body_calls)

lemma bind_call_error:
  "raises L (files w) ev = Some msg \<Longrightarrow>
     bind (call L ev) f w = (Inl (LibraryError ev msg), w\<lparr>trace := trace w @ [ev]\<rparr>)"
  by (simp add: bind_def call_def Let_def)

lemma bind_call_ok:
  "raises L (files w) ev = None \<Longrightarrow> bind (call L ev) f w = f () (w\<lparr>trace := trace w @ [ev]\<rparr>)"
  by (simp add: bind_def call_def Let_def)

lemma calls_append: "calls L (xs @ ys) = bind (calls L xs) (\<lambda>_. calls L ys)"
  by (induction xs) simp_all

lemma calls_all_ok:
  "\<forall>ev \<in> set evs. raises L (files w) ev = None \<Longrightarrow>
     bind (calls L evs) f w = f () (w\<lparr>trace := trace w @ evs\<rparr>)"
proof (induction evs arbitrary: w)
  case Nil
  then show ?case by simp
next
  case (Cons ev evs)
  then show ?case by (simp add: bind_call_ok)
qed

lemma calls_first_error:
  "\<forall>ev \<in> set pre. raises L (files w) ev = None \<Longrightarrow> raises L (files w) ev = Some msg \<Longrightarrow>
     bind (calls L (pre @ ev # post)) f w = (Inl (LibraryError ev msg), w\<lparr>trace := trace w @ pre @ [ev]\<rparr>)"
proof (induction pre arbitrary: w)
  case Nil
  then show ?case by (simp add: bind_call_error)
next
  case (Cons a pre)
  then show ?case by (simp add: bind_call_ok)
qed

lemma first_error_cases:
  obtains (all_ok) "\<forall>ev \<in> set evs. raises L fs ev = None"
  | (error) pre ev post msg where "evs = pre @ ev # post"
      "\<forall>ev \<in> set pre. raises L fs ev = None" "raises L fs ev = Some msg"
proof (induction evs arbitrary: thesis)
  case Nil
  then show ?case by simp
next
  case (Cons a evs)
  show ?case
  proof (cases "raises L fs a")
    case (Some msg)
    then show ?thesis using Cons.prems(2)[of "[]" a evs msg] by simp
  next
    case None
    show ?thesis
    proof (rule Cons.IH)
      assume "\<forall>ev \<in> set evs. raises L fs ev = None"
      with None show ?thesis by (intro Cons.prems(1)) simp
    next
      fix pre ev post msg
      assume "evs = pre @ ev # post" "\<forall>ev \<in> set pre. raises L fs ev = None" "raises L fs ev = Some msg"
      with None show ?thesis by (intro Cons.prems(2)[of "a # pre" ev post msg]) simp_all
    qed
  qed
qed

lemma save_then_print:
  "bind (k_save L m p) (\<lambda>_. print s) =
     bind (call L (KSave m p)) (\<lambda>_ w.
       (Inr (), w\<lparr>files := (files w)(p \<mapsto> h5_encode L m), stdout := stdout w @ [s]\<rparr>))"
proof -
  have "bind (\<lambda>w. (Inr (), w\<lparr>files := (files w)(p \<mapsto> h5_encode L m)\<rparr>)) (\<lambda>_. print s)
      = (\<lambda>w. (Inr (), w\<lparr>files := (files w)(p \<mapsto> h5_encode L m), stdout := stdout w @ [s]\<rparr>))"
    by (rule ext) (simp add: bind_def print_def)
  then show ?thesis by (simp add: k_save_def)
qed

lemma train_script_nf2:
  "train_script L =
     bind (np_load L npy_path) (\<lambda>data.
     bind (call L (TrainTestSplit data (2 / 10) 42)) (\<lambda>_.
     bind (lift (train_test_split L data (2 / 10) 42)) (\<lambda>(X_train, X_val).
     bind (lift (shape_1 X_train)) (\<lambda>input_dim.
     bind (calls L (train_tail L X_train X_val input_dim)) (\<lambda>_ w.
       (Inr (), w\<lparr>files := (files w)(h5_path \<mapsto> h5_encode L (trained_model L X_train X_val input_dim)),
                   stdout := stdout w @ [saved_msg]\<rparr>))))))"
  unfolding train_script_nf train_tail_def calls_append
  by (simp add: save_then_print)

lemma bind_np_load_missing:
  "files w p = None \<Longrightarrow> bind (np_load L p) f w = (Inl (NoSuchFile p), w\<lparr>trace := trace w @ [NpLoad p]\<rparr>)"
  by (simp add: bind_def np_load_def)

lemma bind_np_load_error:
  "files w p = Some b \<Longrightarrow> raises L (files w) (NpLoad p) = Some msg \<Longrightarrow>
     bind (np_load L p) f w = (Inl (LibraryError (NpLoad p) msg), w\<lparr>trace := trace w @ [NpLoad p]\<rparr>)"
  by (simp add: bind_def[of "np_load L p"] np_load_def bind_def[of "call L (NpLoad p)"] call_def Let_def)

lemma bind_np_load_ok:
  "files w p = Some b \<Longrightarrow> raises L (files w) (NpLoad p) = None \<Longrightarrow>
     bind (np_load L p) f w = f (npy_decode L b) (w\<lparr>trace := trace w @ [NpLoad p]\<rparr>)"
  by (simp add: bind_def[of "np_load L p"] np_load_def bind_def[of "call L (NpLoad p)"] call_def Let_def ret_def)

lemma bind_lift_Inl: "r = Inl e \<Longrightarrow> bind (lift r) f w = (Inl e, w)"
  by (simp add: bind_def lift_def)

lemma bind_lift_Inr: "r = Inr a \<Longrightarrow> bind (lift r) f w = f a w"
  by (simp add: bind_def lift_def)

lemma shape_1_Inl: "shape_1 a = Inl e \<Longrightarrow> e = TupleIndexError"
  by (auto simp: shape_1_def split: list.splits)

lemma run_train_cases:
  obtains
    (missing) "fs npy_path = None"
      "run_train L fs = (Inl (NoSuchFile npy_path), \<lparr>files = fs, trace = [NpLoad npy_path], stdout = []\<rparr>)"
  | (load_error) b msg where "fs npy_path = Some b"
      "raises L fs (NpLoad npy_path) = Some msg"
      "run_train L fs = (Inl (LibraryError (NpLoad npy_path) msg),
          \<lparr>files = fs, trace = [NpLoad npy_path], stdout = []\<rparr>)"
  | (split_call_error) b msg where "fs npy_path = Some b"
      "raises L fs (TrainTestSplit (npy_decode L b) (2 / 10) 42) = Some msg"
      "run_train L fs = (Inl (LibraryError (TrainTestSplit (npy_decode L b) (2 / 10) 42) msg),
          \<lparr>files = fs, trace = [NpLoad npy_path, TrainTestSplit (npy_decode L b) (2 / 10) 42], stdout = []\<rparr>)"
  | (split_error) b e where "fs npy_path = Some b"
      "train_test_split L (npy_decode L b) (2 / 10) 42 = Inl e"
      "run_train L fs = (Inl e,
          \<lparr>files = fs, trace = [NpLoad npy_path, TrainTestSplit (npy_decode L b) (2 / 10) 42], stdout = []\<rparr>)"
  | (shape_error) b xt xv where "fs npy_path = Some b"
      "train_test_split L (npy_decode L b) (2 / 10) 42 = Inr (xt, xv)"
      "shape_1 xt = Inl TupleIndexError"
      "run_train L fs = (Inl TupleIndexError,
          \<lparr>files = fs, trace = [NpLoad npy_path, TrainTestSplit (npy_decode L b) (2 / 10) 42], stdout = []\<rparr>)"
  | (call_error) b xt xv d pre ev post msg where "fs npy_path = Some b"
      "train_test_split L (npy_decode L b) (2 / 10) 42 = Inr (xt, xv)"
      "shape_1 xt = Inr d"
      "train_tail L xt xv d = pre @ ev # post"
      "raises L fs ev = Some msg"
      "run_train L fs = (Inl (LibraryError ev msg),
          \<lparr>files = fs, trace = [NpLoad npy_path, TrainTestSplit (npy_decode L b) (2 / 10) 42] @ pre @ [ev],
           stdout = []\<rparr>)"
  | (success) b xt xv d where "fs npy_path = Some b"
      "train_test_split L (npy_decode L b) (2 / 10) 42 = Inr (xt, xv)"
      "shape_1 xt = Inr d"
      "run_train L fs = (Inr (),
          \<lparr>files = fs(h5_path \<mapsto> h5_encode L (trained_model L xt xv d)),
           trace = [NpLoad npy_path, TrainTestSplit (npy_decode L b) (2 / 10) 42] @ train_tail L xt xv d,
           stdout = [saved_msg]\<rparr>)"
proof (cases "fs npy_path")
  case None
  then have "run_train L fs = (Inl (NoSuchFile npy_path), \<lparr>files = fs, trace = [NpLoad npy_path], stdout = []\<rparr>)"
    by (simp add: run_train_def train_script_nf2 start_def bind_np_load_missing)
  with None show ?thesis by (rule missing)
next
  case have_file: (Some b)
  let ?data = "npy_decode L b"
  show ?thesis
  proof (cases "raises L fs (NpLoad npy_path)")
    case (Some msg)
    with have_file have "run_train L fs = (Inl (LibraryError (NpLoad npy_path) msg),
          \<lparr>files = fs, trace = [NpLoad npy_path], stdout = []\<rparr>)"
      by (simp add: run_train_def train_script_nf2 start_def bind_np_load_error)
    with have_file Some show ?thesis by (rule load_error)
  next
    case load_ok: None
    show ?thesis
    proof (cases "raises L fs (TrainTestSplit ?data (2 / 10) 42)")
      case (Some msg)
      with have_file load_ok have "run_train L fs = (Inl (LibraryError (TrainTestSplit ?data (2 / 10) 42) msg),
          \<lparr>files = fs, trace = [NpLoad npy_path, TrainTestSplit ?data (2 / 10) 42], stdout = []\<rparr>)"
        by (simp add: run_train_def train_script_nf2 start_def bind_np_load_ok bind_call_error)
      with have_file Some show ?thesis by (rule split_call_error)
    next
      case call_ok: None
      show ?thesis
      proof (cases "train_test_split L ?data (2 / 10) 42")
        case (Inl e)
        with have_file load_ok call_ok have "run_train L fs = (Inl e,
          \<lparr>files = fs, trace = [NpLoad npy_path, TrainTestSplit ?data (2 / 10) 42], stdout = []\<rparr>)"
          by (simp add: run_train_def train_script_nf2 start_def bind_np_load_ok bind_call_ok bind_lift_Inl)
        with have_file Inl show ?thesis by (rule split_error)
      next
        case (Inr p)
        obtain xt xv where p: "p = (xt, xv)" by (cases p)
        note split = Inr[unfolded p]
        show ?thesis
        proof (cases "shape_1 xt")
          case (Inl e)
          then have e: "e = TupleIndexError" by (rule shape_1_Inl)
          from have_file load_ok call_ok split Inl have "run_train L fs = (Inl TupleIndexError,
            \<lparr>files = fs, trace = [NpLoad npy_path, TrainTestSplit ?data (2 / 10) 42], stdout = []\<rparr>)"
            by (simp add: run_train_def train_script_nf2 start_def bind_np_load_ok bind_call_ok
                  bind_lift_Inr bind_lift_Inl e)
          with have_file split Inl[unfolded e] show ?thesis by (rule shape_error)
        next
          case (Inr d)
          consider (all_ok) "\<forall>ev \<in> set (train_tail L xt xv d). raises L fs ev = None"
            | (error) pre ev post msg where "train_tail L xt xv d = pre @ ev # post"
                "\<forall>ev \<in> set pre. raises L fs ev = None" "raises L fs ev = Some msg"
            by (rule first_error_cases[where evs = "train_tail L xt xv d" and L = L and fs = fs])
          then show ?thesis
          proof cases
            case all_ok
            with have_file load_ok call_ok split Inr have "run_train L fs = (Inr (),
              \<lparr>files = fs(h5_path \<mapsto> h5_encode L (trained_model L xt xv d)),
               trace = [NpLoad npy_path, TrainTestSplit ?data (2 / 10) 42] @ train_tail L xt xv d,
               stdout = [saved_msg]\<rparr>)"
              by (simp add: run_train_def train_script_nf2 start_def bind_np_load_ok bind_call_ok
                    bind_lift_Inr calls_all_ok)
            with have_file split Inr show ?thesis by (rule success)
          next
            case (error pre ev post msg)
            with have_file load_ok call_ok split Inr have "run_train L fs = (Inl (LibraryError ev msg),
              \<lparr>files = fs, trace = [NpLoad npy_path, TrainTestSplit ?data (2 / 10) 42] @ pre @ [ev],
               stdout = []\<rparr>)"
              by (simp add: run_train_def train_script_nf2 start_def bind_np_load_ok bind_call_ok
                    bind_lift_Inr calls_first_error)
            with have_file split Inr error(1,3) show ?thesis by (rule call_error)
          qed
        qed
      qed
    qed
  qed
qed

lemma representative_data_gen_run:
  "representative_data_gen L w = (gen_result L (files w), w\<lparr>trace := trace w @ [NpLoad npy_path]\<rparr>)"
proof (cases "files w npy_path")
  case None
  then show ?thesis
    by (simp add: representative_data_gen_def gen_result_def bind_np_load_missing)
next
  case (Some b)
  then show ?thesis
    by (cases "raises L (files w) (NpLoad npy_path)")
       (simp_all add: representative_data_gen_def gen_result_def bind_np_load_error bind_np_load_ok lift_def)
qed

lemma calibrate_error:
  "gen_result L (files w) = Inl e \<Longrightarrow>
     calibrate L (Some representative_data_gen_ref) (Suc k) w = (Inl e, w\<lparr>trace := trace w @ [NpLoad npy_path]\<rparr>)"
  by (simp add: bind_def representative_data_gen_run)

lemma calibrate_ok:
  "gen_result L (files w) = Inr items \<Longrightarrow>
     calibrate L (Some representative_data_gen_ref) k w =
       (Inr (replicate k items), w\<lparr>trace := trace w @ replicate k (NpLoad npy_path)\<rparr>)"
proof (induction k arbitrary: w)
  case 0
  then show ?case by (simp add: ret_def)
next
  case (Suc k)
  have "calibrate L (Some representative_data_gen_ref) k (w\<lparr>trace := trace w @ [NpLoad npy_path]\<rparr>) =
       (Inr (replicate k items), w\<lparr>trace := trace w @ [NpLoad npy_path]\<rparr>
          \<lparr>trace := trace (w\<lparr>trace := trace w @ [NpLoad npy_path]\<rparr>) @ replicate k (NpLoad npy_path)\<rparr>)"
    by (rule Suc.IH) (simp add: Suc.prems)
  with Suc.prems show ?case
    by (simp add: bind_def[of "representative_data_gen L"] bind_def[of "calibrate L _ _"]
          representative_data_gen_run ret_def)
qed

lemma bind_load_model_missing:
  "files w p = None \<Longrightarrow> bind (k_load_model L p) f w = (Inl (NoSuchFile p), w\<lparr>trace := trace w @ [KLoadModel p]\<rparr>)"
  by (simp add: bind_def k_load_model_def)

lemma bind_load_model_error:
  "files w p = Some b \<Longrightarrow> raises L (files w) (KLoadModel p) = Some msg \<Longrightarrow>
     bind (k_load_model L p) f w = (Inl (LibraryError (KLoadModel p) msg), w\<lparr>trace := trace w @ [KLoadModel p]\<rparr>)"
  by (simp add: bind_def[of "k_load_model L p"] k_load_model_def bind_call_error)

lemma bind_load_model_ok:
  "files w p = Some b \<Longrightarrow> raises L (files w) (KLoadModel p) = None \<Longrightarrow>
     bind (k_load_model L p) f w = f (h5_decode L b) (w\<lparr>trace := trace w @ [KLoadModel p]\<rparr>)"
  by (simp add: bind_def[of "k_load_model L p"] k_load_model_def bind_call_ok ret_def)

lemma convert_script_nf:
  "convert_script L =
     bind (k_load_model L h5_path) (\<lambda>model.
     bind (call L (FromKerasModel model)) (\<lambda>_.
     bind (call L (Convert \<lparr>keras_model = model, optimizations = [DEFAULT],
              representative_dataset = Some representative_data_gen_ref\<rparr>)) (\<lambda>_.
     bind (calibrate L (Some representative_data_gen_ref)
             (calibration_runs L \<lparr>keras_model = model, optimizations = [DEFAULT],
                representative_dataset = Some representative_data_gen_ref\<rparr>)) (\<lambda>samples.
     bind (call L (OpenWb tflite_path)) (\<lambda>_.
     bind (\<lambda>w. (Inr (), w\<lparr>files := (files w)(tflite_path \<mapsto> [])\<rparr>)) (\<lambda>_.
     bind (call L (FileWrite tflite_path (tflite_bytes L \<lparr>keras_model = model, optimizations = [DEFAULT],
              representative_dataset = Some representative_data_gen_ref\<rparr> samples))) (\<lambda>_ w.
       (Inr (), w\<lparr>files := (files w)(tflite_path \<mapsto>
            (case files w tflite_path of None \<Rightarrow> tflite_bytes L \<lparr>keras_model = model, optimizations = [DEFAULT],
              representative_dataset = Some representative_data_gen_ref\<rparr> samples
             | Some old \<Rightarrow> old @ tflite_bytes L \<lparr>keras_model = model, optimizations = [DEFAULT],
              representative_dataset = Some representative_data_gen_ref\<rparr> samples)),
          stdout := stdout w @ [wrote_msg]\<rparr>))))))))"
proof -
  have p: "\<And>g. bind (\<lambda>w. (Inr (), g w)) (\<lambda>_. print wrote_msg) = (\<lambda>w. (Inr (), (g w)\<lparr>stdout := stdout (g w) @ [wrote_msg]\<rparr>))"
    by (rule ext) (simp add: bind_def print_def)
  have q: "\<And>(x::path) h. bind (\<lambda>w. (Inr x, h w)) = (\<lambda>f. bind (\<lambda>w. (Inr (), h w)) (\<lambda>_. f x))"
    by (rule ext, rule ext) (simp add: bind_def)
  show ?thesis
    by (simp add: convert_script_def from_keras_model_def convert_def open_wb_def file_write_def p q
          cong: option.case_cong)
qed

lemma bind_calibrate_error:
  "calibration L (files w) k = Inl e \<Longrightarrow>
     bind (calibrate L (Some representative_data_gen_ref) k) f w =
       (Inl e, w\<lparr>trace := trace w @ [NpLoad npy_path]\<rparr>)"
  by (cases k; cases "gen_result L (files w)")
     (simp_all add: calibration_def bind_def[of "calibrate L _ _"] calibrate_error del: calibrate.simps)

lemma bind_calibrate_ok:
  assumes that: "calibration L (files w) k = Inr samples"
  shows "bind (calibrate L (Some representative_data_gen_ref) k) f w =
       f samples (w\<lparr>trace := trace w @ replicate k (NpLoad npy_path)\<rparr>)"
proof (cases k)
  case 0
  with that show ?thesis by (simp add: calibration_def)
next
  case (Suc k')
  with that obtain items where "gen_result L (files w) = Inr items" "samples = replicate k items"
    by (auto simp: calibration_def split: sum.splits)
  then show ?thesis
    by (simp add: bind_def[of "calibrate L _ _"] calibrate_ok del: calibrate.simps)
qed

lemma convert_script_head:
  assumes that: "files w h5_path = Some b"
  shows "convert_script L w =
     bind (calls L (convert_head L b)) (\<lambda>_.
     bind (calibrate L (Some representative_data_gen_ref) (calibration_runs L (the_converter L b))) (\<lambda>samples.
     bind (call L (OpenWb tflite_path)) (\<lambda>_.
     bind (\<lambda>w. (Inr (), w\<lparr>files := (files w)(tflite_path \<mapsto> [])\<rparr>)) (\<lambda>_.
     bind (call L (FileWrite tflite_path (tflite_bytes L (the_converter L b) samples))) (\<lambda>_ w.
       (Inr (), w\<lparr>files := (files w)(tflite_path \<mapsto>
            (case files w tflite_path of None \<Rightarrow> tflite_bytes L (the_converter L b) samples
             | Some old \<Rightarrow> old @ tflite_bytes L (the_converter L b) samples)),
          stdout := stdout w @ [wrote_msg]\<rparr>)))))) w"
proof (cases "raises L (files w) (KLoadModel h5_path)")
  case None
  with that show ?thesis
    by (simp add: convert_script_nf convert_head_def the_converter_def bind_load_model_ok bind_call_ok
          cong: option.case_cong)
next
  case (Some msg)
  with that show ?thesis
    by (simp add: convert_script_nf convert_head_def the_converter_def bind_load_model_error bind_call_error
          cong: option.case_cong)
qed

lemma run_convert_cases:
  obtains
    (missing) "fs h5_path = None"
      "run_convert L fs = (Inl (NoSuchFile h5_path), \<lparr>files = fs, trace = [KLoadModel h5_path], stdout = []\<rparr>)"
  | (head_error) b pre ev post msg where "fs h5_path = Some b"
      "convert_head L b = pre @ ev # post" "raises L fs ev = Some msg"
      "run_convert L fs = (Inl (LibraryError ev msg), \<lparr>files = fs, trace = pre @ [ev], stdout = []\<rparr>)"
  | (gen_error) b e where "fs h5_path = Some b"
      "calibration L fs (calibration_runs L (the_converter L b)) = Inl e"
      "run_convert L fs = (Inl e, \<lparr>files = fs, trace = convert_head L b @ [NpLoad npy_path], stdout = []\<rparr>)"
  | (open_error) b samples msg where "fs h5_path = Some b"
      "calibration L fs (calibration_runs L (the_converter L b)) = Inr samples"
      "raises L fs (OpenWb tflite_path) = Some msg"
      "run_convert L fs = (Inl (LibraryError (OpenWb tflite_path) msg),
         \<lparr>files = fs,
          trace = convert_head L b @ replicate (calibration_runs L (the_converter L b)) (NpLoad npy_path)
                  @ [OpenWb tflite_path],
          stdout = []\<rparr>)"
  | (write_error) b samples msg where "fs h5_path = Some b"
      "calibration L fs (calibration_runs L (the_converter L b)) = Inr samples"
      "raises L (fs(tflite_path \<mapsto> [])) (FileWrite tflite_path (tflite_bytes L (the_converter L b) samples)) = Some msg"
      "run_convert L fs =
        (Inl (LibraryError (FileWrite tflite_path (tflite_bytes L (the_converter L b) samples)) msg),
         \<lparr>files = fs(tflite_path \<mapsto> []),
          trace = convert_head L b @ replicate (calibration_runs L (the_converter L b)) (NpLoad npy_path)
                  @ [OpenWb tflite_path, FileWrite tflite_path (tflite_bytes L (the_converter L b) samples)],
          stdout = []\<rparr>)"
  | (success) b samples where "fs h5_path = Some b"
      "calibration L fs (calibration_runs L (the_converter L b)) = Inr samples"
      "run_convert L fs =
        (Inr (),
         \<lparr>files = fs(tflite_path \<mapsto> tflite_bytes L (the_converter L b) samples),
          trace = convert_head L b @ replicate (calibration_runs L (the_converter L b)) (NpLoad npy_path)
                  @ [OpenWb tflite_path, FileWrite tflite_path (tflite_bytes L (the_converter L b) samples)],
          stdout = [wrote_msg]\<rparr>)"
proof (cases "fs h5_path")
  case None
  then have "run_convert L fs = (Inl (NoSuchFile h5_path), \<lparr>files = fs, trace = [KLoadModel h5_path], stdout = []\<rparr>)"
    by (simp add: run_convert_def convert_script_nf start_def bind_load_model_missing)
  with None show ?thesis by (rule missing)
next
  case have_file: (Some b)
  let ?c = "the_converter L b"
  let ?k = "calibration_runs L ?c"
  note nf = convert_script_head[of "start fs" b L, unfolded start_def, simplified, OF have_file]
  consider (all_ok) "\<forall>ev \<in> set (convert_head L b). raises L fs ev = None"
    | (error) pre ev post msg where "convert_head L b = pre @ ev # post"
        "\<forall>ev \<in> set pre. raises L fs ev = None" "raises L fs ev = Some msg"
    by (rule first_error_cases[where evs = "convert_head L b" and L = L and fs = fs])
  then show ?thesis
  proof cases
    case (error pre ev post msg)
    then have "run_convert L fs = (Inl (LibraryError ev msg), \<lparr>files = fs, trace = pre @ [ev], stdout = []\<rparr>)"
      by (simp add: run_convert_def start_def nf calls_first_error)
    with have_file error(1,3) show ?thesis by (rule head_error)
  next
    case all_ok
    show ?thesis
    proof (cases "calibration L fs ?k")
      case (Inl e)
      with all_ok have "run_convert L fs = (Inl e, \<lparr>files = fs, trace = convert_head L b @ [NpLoad npy_path], stdout = []\<rparr>)"
        by (simp add: run_convert_def start_def nf calls_all_ok bind_calibrate_error)
      with have_file Inl show ?thesis by (rule gen_error)
    next
      case (Inr samples)
      let ?bytes = "tflite_bytes L ?c samples"
      show ?thesis
      proof (cases "raises L fs (OpenWb tflite_path)")
        case (Some msg)
        with all_ok Inr have "run_convert L fs = (Inl (LibraryError (OpenWb tflite_path) msg),
           \<lparr>files = fs, trace = convert_head L b @ replicate ?k (NpLoad npy_path) @ [OpenWb tflite_path],
            stdout = []\<rparr>)"
          by (simp add: run_convert_def start_def nf calls_all_ok bind_calibrate_ok bind_call_error)
        with have_file Inr Some show ?thesis by (rule open_error)
      next
        case open_ok: None
        show ?thesis
        proof (cases "raises L (fs(tflite_path \<mapsto> [])) (FileWrite tflite_path ?bytes)")
          case (Some msg)
          with all_ok Inr open_ok have "run_convert L fs =
            (Inl (LibraryError (FileWrite tflite_path ?bytes) msg),
             \<lparr>files = fs(tflite_path \<mapsto> []),
              trace = convert_head L b @ replicate ?k (NpLoad npy_path)
                  @ [OpenWb tflite_path, FileWrite tflite_path ?bytes],
              stdout = []\<rparr>)"
            by (simp add: run_convert_def start_def nf calls_all_ok bind_calibrate_ok bind_call_ok
                  bind_call_error bind_def[of "\<lambda>w. (Inr (), _ w)"])
          with have_file Inr Some show ?thesis by (rule write_error)
        next
          case None
          with all_ok Inr open_ok have "run_convert L fs =
            (Inr (),
             \<lparr>files = fs(tflite_path \<mapsto> ?bytes),
              trace = convert_head L b @ replicate ?k (NpLoad npy_path)
                  @ [OpenWb tflite_path, FileWrite tflite_path ?bytes],
              stdout = [wrote_msg]\<rparr>)"
            by (simp add: run_convert_def start_def nf calls_all_ok bind_calibrate_ok bind_call_ok
                  bind_def[of "\<lambda>w. (Inr (), _ w)"])
          with have_file Inr show ?thesis by (rule success)
        qed
      qed
    qed
  qed
qed

section \<open>Runs on the concrete library, and the calls of a training run\<close>

lemma split_0: "train_test_split lib_0 array_5x2 (2 / 10) 42 = Inr (xt_0, xv_0)"
  by (simp add: train_test_split_def lib_0_def array_5x2_def xt_0_def xv_0_def take_rows_def row_def
        row_size_def Let_def upt_rec)


lemma raises_0 [simp]: "raises lib_0 fs ev = None"
  by (simp add: lib_0_def)

lemma run_train_0:
  "run_train lib_0 files_2d =
     (Inr (), \<lparr>files = files_2d(h5_path \<mapsto> ''h5''),
               trace = [NpLoad npy_path, TrainTestSplit array_5x2 (2 / 10) 42] @ train_tail lib_0 xt_0 xv_0 2,
               stdout = [saved_msg]\<rparr>)"
proof -
  have d: "npy_decode lib_0 ''2d'' = array_5x2" "h5_encode lib_0 = (\<lambda>m. ''h5'')" by (simp_all add: lib_0_def)
  have s: "shape_1 xt_0 = Inr 2" by (simp add: shape_1_def xt_0_def)
  have f: "files_2d npy_path = Some ''2d''" by (simp add: files_2d_def)
  show ?thesis
    by (simp add: run_train_def train_script_nf2 start_def bind_np_load_ok[OF _ raises_0] f d
          bind_call_ok bind_lift_Inr[OF split_0[simplified]] bind_lift_Inr[OF s] calls_all_ok)
qed


lemma train_tail_events:
  "ev \<in> set (train_tail L xt xv d) \<Longrightarrow>
     ev \<in> {KInput [d],
       KDense 64 ''relu'' (Input [d]),
       KDense 32 ''relu'' (Dense 64 ''relu'' (Input [d])),
       KDense 16 ''relu'' (Dense 32 ''relu'' (Dense 64 ''relu'' (Input [d]))),
       KDense 32 ''relu'' (Dense 16 ''relu'' (Dense 32 ''relu'' (Dense 64 ''relu'' (Input [d])))),
       KDense 64 ''relu'' (Dense 32 ''relu'' (Dense 16 ''relu'' (Dense 32 ''relu'' (Dense 64 ''relu'' (Input [d]))))),
       KDense d ''linear'' (hidden d),
       KModel (Input [d]) (Dense d ''linear'' (hidden d)),
       KAdam (1 / 1000),
       KCompile (built_model L d) (Adam (1 / 1000)) ''mse'',
       KFit (compiled_model L d) xt xt (xv, xv) 50 64,
       KSave (trained_model L xt xv d) h5_path}"
  by (simp add: train_tail_def train_calls_def)

text \<open>Every call of a training run is the load, the split, or one of the calls of the tail.\<close>

lemma train_trace_events:
  assumes "ev \<in> set (trace (snd (run_train L fs)))"
  obtains (load) "ev = NpLoad npy_path"
  | (split) b where "fs npy_path = Some b" "ev = TrainTestSplit (npy_decode L b) (2 / 10) 42"
  | (tail) b xt xv d where "fs npy_path = Some b"
      "train_test_split L (npy_decode L b) (2 / 10) 42 = Inr (xt, xv)" "shape_1 xt = Inr d"
      "ev \<in> set (train_tail L xt xv d)"
proof -
  consider
    (missing) "fs npy_path = None"
      "run_train L fs = (Inl (NoSuchFile npy_path), \<lparr>files = fs, trace = [NpLoad npy_path], stdout = []\<rparr>)"
  | (load_error) b msg where "fs npy_path = Some b"
      "raises L fs (NpLoad npy_path) = Some msg"
      "run_train L fs = (Inl (LibraryError (NpLoad npy_path) msg),
          \<lparr>files = fs, trace = [NpLoad npy_path], stdout = []\<rparr>)"
  | (split_call_error) b msg where "fs npy_path = Some b"
      "raises L fs (TrainTestSplit (npy_decode L b) (2 / 10) 42) = Some msg"
      "run_train L fs = (Inl (LibraryError (TrainTestSplit (npy_decode L b) (2 / 10) 42) msg),
          \<lparr>files = fs, trace = [NpLoad npy_path, TrainTestSplit (npy_decode L b) (2 / 10) 42], stdout = []\<rparr>)"
  | (split_error) b e where "fs npy_path = Some b"
      "train_test_split L (npy_decode L b) (2 / 10) 42 = Inl e"
      "run_train L fs = (Inl e,
          \<lparr>files = fs, trace = [NpLoad npy_path, TrainTestSplit (npy_decode L b) (2 / 10) 42], stdout = []\<rparr>)"
  | (shape_error) b xt xv where "fs npy_path = Some b"
      "train_test_split L (npy_decode L b) (2 / 10) 42 = Inr (xt, xv)"
      "shape_1 xt = Inl TupleIndexError"
      "run_train L fs = (Inl TupleIndexError,
          \<lparr>files = fs, trace = [NpLoad npy_path, TrainTestSplit (npy_decode L b) (2 / 10) 42], stdout = []\<rparr>)"
  | (call_error) b xt xv d pre ev' post msg where "fs npy_path = Some b"
      "train_test_split L (npy_decode L b) (2 / 10) 42 = Inr (xt, xv)"
      "shape_1 xt = Inr d"
      "train_tail L xt xv d = pre @ ev' # post"
      "raises L fs ev' = Some msg"
      "run_train L fs = (Inl (LibraryError ev' msg),
          \<lparr>files = fs, trace = [NpLoad npy_path, TrainTestSplit (npy_decode L b) (2 / 10) 42] @ pre @ [ev'],
           stdout = []\<rparr>)"
  | (success) b xt xv d where "fs npy_path = Some b"
      "train_test_split L (npy_decode L b) (2 / 10) 42 = Inr (xt, xv)"
      "shape_1 xt = Inr d"
      "run_train L fs = (Inr (),
          \<lparr>files = fs(h5_path \<mapsto> h5_encode L (trained_model L xt xv d)),
           trace = [NpLoad npy_path, TrainTestSplit (npy_decode L b) (2 / 10) 42] @ train_tail L xt xv d,
           stdout = [saved_msg]\<rparr>)"
    by (rule run_train_cases[of fs L])
  then show ?thesis
  proof cases
    case missing
    with assms show ?thesis by (intro load) simp
  next
    case load_error
    with assms show ?thesis by (intro load) simp
  next
    case (split_call_error b msg)
    with assms have "ev = NpLoad npy_path \<or> ev = TrainTestSplit (npy_decode L b) (2 / 10) 42" by simp
    with split_call_error(1) show ?thesis using load split by blast
  next
    case (split_error b e)
    with assms have "ev = NpLoad npy_path \<or> ev = TrainTestSplit (npy_decode L b) (2 / 10) 42" by simp
    with split_error(1) show ?thesis using load split by blast
  next
    case (shape_error b xt xv)
    with assms have "ev = NpLoad npy_path \<or> ev = TrainTestSplit (npy_decode L b) (2 / 10) 42" by simp
    with shape_error(1) show ?thesis using load split by blast
  next
    case (call_error b xt xv d pre ev' post msg)
    with assms have "ev = NpLoad npy_path \<or> ev = TrainTestSplit (npy_decode L b) (2 / 10) 42
        \<or> ev \<in> set (train_tail L xt xv d)" by auto
    with call_error(1,2,3) show ?thesis using load split tail by blast
  next
    case (success b xt xv d)
    with assms have "ev = NpLoad npy_path \<or> ev = TrainTestSplit (npy_decode L b) (2 / 10) 42
        \<or> ev \<in> set (train_tail L xt xv d)" by auto
    with success(1,2,3) show ?thesis using load split tail by blast
  qed
qed

section \<open>Slices, the generator, and the calls of a conversion run\<close>

lemma np_slice_one:
  assumes "shape a = n # rest"
  shows "np_slice a i (i + 1) =
     Inr (a\<lparr>shape := (if i < n then 1 else 0) # rest, elems := (if i < n then row a i else [])\<rparr>)"
proof (cases "i < n")
  case True
  then have "min i n = i" "max i (min (i + 1) n) = i + 1" by simp_all
  with assms True show ?thesis by (simp add: np_slice_def row_def row_size_def Let_def)
next
  case False
  then have "min i n = n" "max n (min (i + 1) n) = n" by simp_all
  with assms False show ?thesis by (simp add: np_slice_def Let_def)
qed

lemma gen_items_map:
  assumes "shape a = n # rest"
  shows "gen_items L a idx =
     Inr (map (\<lambda>i. [astype L ''float32''
            (a\<lparr>shape := (if i < n then 1 else 0) # rest, elems := (if i < n then row a i else [])\<rparr>)]) idx)"
  by (induction idx) (simp_all add: np_slice_one[OF assms, unfolded Suc_eq_plus1[symmetric]])

lemma gen_result_0: "gen_result lib_0 files_h5 = Inr items_0"
proof -
  have "shape array_5x2 = 5 # [2]" by (simp add: array_5x2_def)
  from gen_items_map[OF this] have "gen_items lib_0 array_5x2 [0..<100] = Inr items_0"
    unfolding items_0_def by simp
  moreover have "files_h5 npy_path = Some ''2d''" "npy_decode lib_0 ''2d'' = array_5x2"
    by (simp_all add: files_h5_def lib_0_def)
  ultimately show ?thesis by (simp add: gen_result_def)
qed

lemma run_convert_0:
  "run_convert lib_0 files_h5 =
     (Inr (), \<lparr>files = files_h5(tflite_path \<mapsto> ''tfl''),
        trace = convert_head lib_0 ''h5'' @ [NpLoad npy_path, OpenWb tflite_path, FileWrite tflite_path ''tfl''],
        stdout = [wrote_msg]\<rparr>)"
proof -
  have k: "calibration_runs lib_0 (the_converter lib_0 ''h5'') = Suc 0" "\<And>c s. tflite_bytes lib_0 c s = ''tfl''"
    by (simp_all add: lib_0_def)
  have f: "files_h5 h5_path = Some ''h5''" by (simp add: files_h5_def)
  have c: "calibration lib_0 files_h5 (Suc 0) = Inr [items_0]"
    by (simp add: calibration_def gen_result_0)
  have nf: "run_convert lib_0 files_h5 = 
     bind (calls lib_0 (convert_head lib_0 ''h5'')) (\<lambda>_.
     bind (calibrate lib_0 (Some representative_data_gen_ref) (calibration_runs lib_0 (the_converter lib_0 ''h5''))) (\<lambda>samples.
     bind (call lib_0 (OpenWb tflite_path)) (\<lambda>_.
     bind (\<lambda>w. (Inr (), w\<lparr>files := (files w)(tflite_path \<mapsto> [])\<rparr>)) (\<lambda>_.
     bind (call lib_0 (FileWrite tflite_path (tflite_bytes lib_0 (the_converter lib_0 ''h5'') samples))) (\<lambda>_ w.
       (Inr (), w\<lparr>files := (files w)(tflite_path \<mapsto>
            (case files w tflite_path of None \<Rightarrow> tflite_bytes lib_0 (the_converter lib_0 ''h5'') samples
             | Some old \<Rightarrow> old @ tflite_bytes lib_0 (the_converter lib_0 ''h5'') samples)),
          stdout := stdout w @ [wrote_msg]\<rparr>)))))) (start files_h5)"
    unfolding run_convert_def by (rule convert_script_head) (simp add: start_def f)
  show ?thesis
    unfolding nf
    by (simp add: start_def calls_all_ok k bind_calibrate_ok[where samples = "[items_0]"] c bind_call_ok
          bind_def[of "\<lambda>w. (Inr (), _ w)"] del: calibrate.simps)
qed

lemma run_convert_success:
  assumes "fst (run_convert L fs) = Inr u"
  shows "\<exists>b samples. fs h5_path = Some b
      \<and> calibration L fs (calibration_runs L (the_converter L b)) = Inr samples
      \<and> run_convert L fs =
        (Inr (),
         \<lparr>files = fs(tflite_path \<mapsto> tflite_bytes L (the_converter L b) samples),
          trace = convert_head L b @ replicate (calibration_runs L (the_converter L b)) (NpLoad npy_path)
                  @ [OpenWb tflite_path, FileWrite tflite_path (tflite_bytes L (the_converter L b) samples)],
          stdout = [wrote_msg]\<rparr>)"
  by (rule run_convert_cases[of fs L]) (use assms in auto)

lemma convert_trace_events:
  assumes "ev \<in> set (trace (snd (run_convert L fs)))"
  shows "ev = KLoadModel h5_path \<or>
     (\<exists>b. fs h5_path = Some b \<and>
        (ev \<in> set (convert_head L b) \<or> ev = NpLoad npy_path \<or> ev = OpenWb tflite_path \<or>
         (\<exists>samples. calibration L fs (calibration_runs L (the_converter L b)) = Inr samples
            \<and> ev = FileWrite tflite_path (tflite_bytes L (the_converter L b) samples))))"
proof (rule run_convert_cases[of fs L])
  fix b pre ev' post msg
  assume h: "fs h5_path = Some b" "convert_head L b = pre @ ev' # post"
    "run_convert L fs = (Inl (LibraryError ev' msg), \<lparr>files = fs, trace = pre @ [ev'], stdout = []\<rparr>)"
  from h(3) assms have "ev \<in> set (pre @ ev' # post)" by auto
  with h(1,2) show ?thesis by metis
qed (use assms in auto)

section \<open>Runs that fail\<close>






section \<open>The split: sizes and rows\<close>










section \<open>The training script: network, hyperparameters, autoencoder\<close>

lemma run_train_success:
  assumes "fst (run_train L fs) = Inr u"
  shows "\<exists>b xt xv d. fs npy_path = Some b
      \<and> train_test_split L (npy_decode L b) (2 / 10) 42 = Inr (xt, xv) \<and> shape_1 xt = Inr d
      \<and> run_train L fs = (Inr (),
          \<lparr>files = fs(h5_path \<mapsto> h5_encode L (trained_model L xt xv d)),
           trace = [NpLoad npy_path, TrainTestSplit (npy_decode L b) (2 / 10) 42] @ train_tail L xt xv d,
           stdout = [saved_msg]\<rparr>)"
  by (rule run_train_cases[of fs L]) (use assms in auto)





text \<open>
  C2. Every optimizer, compile and fit call of a training run, for any library behaviour
  and any file system, has the fixed hyperparameters: Adam with learning rate 1e-3, loss
  \<open>mse\<close>, 50 epochs, batch size 64; and a run that succeeds has made exactly one compile
  call and one fit call.
\<close>

theorem hyperparameters_fixed:
  "list_all fixed_hyperparameters (trace (snd (run_train L fs)))
   \<and> (fst (run_train L fs) = Inr () \<longrightarrow>
        (\<exists>m m' x v. filter is_training_call (trace (snd (run_train L fs)))
            = [KCompile m (Adam (1 / 1000)) ''mse'', KFit m' x x v 50 64]))"
proof
  have "fixed_hyperparameters ev" if "ev \<in> set (trace (snd (run_train L fs)))" for ev
    using that
  proof (rule train_trace_events)
    fix b xt xv d
    assume "ev \<in> set (train_tail L xt xv d)"
    then show ?thesis
      by (auto dest!: train_tail_events simp: compiled_model_def built_model_def)
  qed auto
  then show "list_all fixed_hyperparameters (trace (snd (run_train L fs)))"
    by (simp add: list_all_iff)
next
  show "fst (run_train L fs) = Inr () \<longrightarrow>
        (\<exists>m m' x v. filter is_training_call (trace (snd (run_train L fs)))
            = [KCompile m (Adam (1 / 1000)) ''mse'', KFit m' x x v 50 64])"
  proof
    assume "fst (run_train L fs) = Inr ()"
    from run_train_success[OF this] show "\<exists>m m' x v. filter is_training_call (trace (snd (run_train L fs)))
            = [KCompile m (Adam (1 / 1000)) ''mse'', KFit m' x x v 50 64]"
      by (auto simp: train_tail_def train_calls_def)
  qed
qed

theorem hyperparameters_fixed_witness:
  "fst (run_train lib_0 files_2d) = Inr ()
   \<and> list_all fixed_hyperparameters (trace (snd (run_train lib_0 files_2d)))
   \<and> (\<exists>m m' x v. filter is_training_call (trace (snd (run_train lib_0 files_2d)))
            = [KCompile m (Adam (1 / 1000)) ''mse'', KFit m' x x v 50 64])"
proof -
  have ok: "fst (run_train lib_0 files_2d) = Inr ()" by (simp add: run_train_0)
  from hyperparameters_fixed[of lib_0 files_2d] ok show ?thesis by blast
qed



section \<open>Where rejections come from\<close>




section \<open>The conversion step and the file interface\<close>

text \<open>
  C4. Whenever the conversion script calls \<^verbatim>\<open>convert()\<close>, the converter holds the model
  loaded from \<^verbatim>\<open>models/autoencoder.h5\<close>, \<^verbatim>\<open>optimizations = [Optimize.DEFAULT]\<close> and
  \<^verbatim>\<open>representative_dataset = representative_data_gen\<close>; and when the script succeeds,
  the output file holds exactly the bytes the converter returned, which are also the
  bytes passed to \<^verbatim>\<open>write\<close>.
\<close>

theorem conversion_configured:
  "(Convert c \<in> set (trace (snd (run_convert L fs))) \<longrightarrow>
      (\<exists>b. fs h5_path = Some b \<and> keras_model c = h5_decode L b)
      \<and> optimizations c = [DEFAULT]
      \<and> representative_dataset c = Some representative_data_gen_ref)
   \<and> (fst (run_convert L fs) = Inr () \<longrightarrow>
      (\<exists>b samples. fs h5_path = Some b
         \<and> calibration L fs (calibration_runs L (the_converter L b)) = Inr samples
         \<and> Convert (the_converter L b) \<in> set (trace (snd (run_convert L fs)))
         \<and> FileWrite tflite_path (tflite_bytes L (the_converter L b) samples)
               \<in> set (trace (snd (run_convert L fs)))
         \<and> files (snd (run_convert L fs)) tflite_path = Some (tflite_bytes L (the_converter L b) samples)))"
proof (rule conjI; rule impI)
  assume "Convert c \<in> set (trace (snd (run_convert L fs)))"
  from convert_trace_events[OF this] obtain b where "fs h5_path = Some b" "c = the_converter L b"
    by (auto simp: convert_head_def)
  then show "(\<exists>b. fs h5_path = Some b \<and> keras_model c = h5_decode L b)
      \<and> optimizations c = [DEFAULT]
      \<and> representative_dataset c = Some representative_data_gen_ref"
    by (simp add: the_converter_def)
next
  assume "fst (run_convert L fs) = Inr ()"
  from run_convert_success[OF this]
  show "\<exists>b samples. fs h5_path = Some b
         \<and> calibration L fs (calibration_runs L (the_converter L b)) = Inr samples
         \<and> Convert (the_converter L b) \<in> set (trace (snd (run_convert L fs)))
         \<and> FileWrite tflite_path (tflite_bytes L (the_converter L b) samples)
               \<in> set (trace (snd (run_convert L fs)))
         \<and> files (snd (run_convert L fs)) tflite_path = Some (tflite_bytes L (the_converter L b) samples)"
    by (auto simp: convert_head_def)
qed

theorem conversion_configured_witness:
  "Convert (the_converter lib_0 ''h5'') \<in> set (trace (snd (run_convert lib_0 files_h5)))
   \<and> fst (run_convert lib_0 files_h5) = Inr ()
   \<and> optimizations (the_converter lib_0 ''h5'') = [DEFAULT]
   \<and> representative_dataset (the_converter lib_0 ''h5'') = Some representative_data_gen_ref
   \<and> (\<exists>b samples. files_h5 h5_path = Some b
         \<and> files (snd (run_convert lib_0 files_h5)) tflite_path
              = Some (tflite_bytes lib_0 (the_converter lib_0 b) samples))"
proof -
  have mem: "Convert (the_converter lib_0 ''h5'') \<in> set (trace (snd (run_convert lib_0 files_h5)))"
    by (simp add: run_convert_0 convert_head_def)
  have ok: "fst (run_convert lib_0 files_h5) = Inr ()" by (simp add: run_convert_0)
  have tc: "optimizations (the_converter lib_0 ''h5'') = [DEFAULT]"
    "representative_dataset (the_converter lib_0 ''h5'') = Some representative_data_gen_ref"
    by (simp_all add: the_converter_def)
  from conversion_configured[of "the_converter lib_0 ''h5''" lib_0 files_h5] mem ok
  have "\<exists>b samples. files_h5 h5_path = Some b
         \<and> files (snd (run_convert lib_0 files_h5)) tflite_path
              = Some (tflite_bytes lib_0 (the_converter lib_0 b) samples)"
    by fast
  with mem ok tc show ?thesis by simp
qed






section \<open>Failure, order of the calls, and the representative dataset\<close>





lemma train_tail_names: "map call_name (train_tail L xt xv d) = drop 2 train_order"
  by (simp add: train_tail_def train_calls_def train_order_def)

lemma convert_head_names:
  "map call_name (convert_head L b) = [''load_model'', ''from_keras_model'', ''convert'']"
  by (simp add: convert_head_def)

lemma train_prefix: "prefix (map call_name (trace (snd (run_train L fs)))) train_order"
proof (rule run_train_cases[of fs L])
  fix b xt xv d pre ev post msg
  assume h: "train_tail L xt xv d = pre @ ev # post"
    "run_train L fs = (Inl (LibraryError ev msg),
          \<lparr>files = fs, trace = [NpLoad npy_path, TrainTestSplit (npy_decode L b) (2 / 10) 42] @ pre @ [ev],
           stdout = []\<rparr>)"
  from train_tail_names[of L xt xv d] h(1)
  have "drop 2 train_order = map call_name pre @ call_name ev # map call_name post" by simp
  then have "train_order = [''np.load'', ''train_test_split''] @ map call_name pre @ call_name ev # map call_name post"
    by (simp add: train_order_def)
  then have "train_order = map call_name (trace (snd (run_train L fs))) @ map call_name post"
    by (simp add: h(2))
  then show ?thesis by (rule prefixI)
next
  fix b xt xv d
  assume h: "run_train L fs = (Inr (),
          \<lparr>files = fs(h5_path \<mapsto> h5_encode L (trained_model L xt xv d)),
           trace = [NpLoad npy_path, TrainTestSplit (npy_decode L b) (2 / 10) 42] @ train_tail L xt xv d,
           stdout = [saved_msg]\<rparr>)"
  show ?thesis by (simp add: h train_tail_names) (simp add: train_order_def)
qed (simp_all add: train_order_def)

lemma convert_prefix: "\<exists>k. prefix (map call_name (trace (snd (run_convert L fs)))) (convert_order k)"
proof (rule run_convert_cases[of fs L])
  fix b pre ev post msg
  assume h: "convert_head L b = pre @ ev # post"
    "run_convert L fs = (Inl (LibraryError ev msg), \<lparr>files = fs, trace = pre @ [ev], stdout = []\<rparr>)"
  from convert_head_names[of L b] h(1)
  have "[''load_model'', ''from_keras_model'', ''convert''] = map call_name pre @ call_name ev # map call_name post"
    by simp
  then have "convert_order 0 = map call_name (trace (snd (run_convert L fs))) @ map call_name post @ [''open'', ''write'']"
    by (simp add: convert_order_def h(2))
  then have "prefix (map call_name (trace (snd (run_convert L fs)))) (convert_order 0)" by (rule prefixI)
  then show ?thesis ..
next
  fix b e
  assume h: "run_convert L fs = (Inl e, \<lparr>files = fs, trace = convert_head L b @ [NpLoad npy_path], stdout = []\<rparr>)"
  have "prefix (map call_name (trace (snd (run_convert L fs)))) (convert_order 1)"
    by (simp add: h convert_head_names convert_order_def)
  then show ?thesis ..
next
  fix b samples msg
  assume h: "run_convert L fs = (Inl (LibraryError (OpenWb tflite_path) msg),
         \<lparr>files = fs,
          trace = convert_head L b @ replicate (calibration_runs L (the_converter L b)) (NpLoad npy_path)
                  @ [OpenWb tflite_path],
          stdout = []\<rparr>)"
  have "prefix (map call_name (trace (snd (run_convert L fs)))) (convert_order (calibration_runs L (the_converter L b)))"
    by (simp add: h convert_head_names convert_order_def)
  then show ?thesis ..
next
  fix b samples msg
  assume h: "run_convert L fs =
        (Inl (LibraryError (FileWrite tflite_path (tflite_bytes L (the_converter L b) samples)) msg),
         \<lparr>files = fs(tflite_path \<mapsto> []),
          trace = convert_head L b @ replicate (calibration_runs L (the_converter L b)) (NpLoad npy_path)
                  @ [OpenWb tflite_path, FileWrite tflite_path (tflite_bytes L (the_converter L b) samples)],
          stdout = []\<rparr>)"
  have "prefix (map call_name (trace (snd (run_convert L fs)))) (convert_order (calibration_runs L (the_converter L b)))"
    by (simp add: h convert_head_names convert_order_def)
  then show ?thesis ..
next
  fix b samples
  assume h: "run_convert L fs =
        (Inr (),
         \<lparr>files = fs(tflite_path \<mapsto> tflite_bytes L (the_converter L b) samples),
          trace = convert_head L b @ replicate (calibration_runs L (the_converter L b)) (NpLoad npy_path)
                  @ [OpenWb tflite_path, FileWrite tflite_path (tflite_bytes L (the_converter L b) samples)],
          stdout = [wrote_msg]\<rparr>)"
  have "prefix (map call_name (trace (snd (run_convert L fs)))) (convert_order (calibration_runs L (the_converter L b)))"
    by (simp add: h convert_head_names convert_order_def)
  then show ?thesis ..
next
  assume h: "run_convert L fs = (Inl (NoSuchFile h5_path), \<lparr>files = fs, trace = [KLoadModel h5_path], stdout = []\<rparr>)"
  have "prefix (map call_name (trace (snd (run_convert L fs)))) (convert_order 0)"
    by (simp add: h convert_order_def)
  then show ?thesis ..
qed

text \<open>
  C8. The calls of a training run are, in order, an initial part of: load, split, Input,
  six times Dense, Model, Adam, compile, fit, save; and all of them when the run
  succeeds. The calls of a conversion run are an initial part of: load_model,
  from_keras_model, convert, the loads of the generator (one per pass \<open>k\<close> of the converter
  over the representative dataset), open, write; and all of them when the run succeeds.
  So no call is skipped, repeated or out of order.
\<close>

theorem fixed_linear_order:
  "prefix (map call_name (trace (snd (run_train L fs)))) train_order
   \<and> (fst (run_train L fs) = Inr () \<longrightarrow> map call_name (trace (snd (run_train L fs))) = train_order)
   \<and> (\<exists>k. prefix (map call_name (trace (snd (run_convert L fs')))) (convert_order k))
   \<and> (fst (run_convert L fs') = Inr () \<longrightarrow>
        (\<exists>k. map call_name (trace (snd (run_convert L fs'))) = convert_order k))"
proof -
  have ts: "map call_name (trace (snd (run_train L fs))) = train_order" if "fst (run_train L fs) = Inr ()"
  proof -
    from run_train_success[OF that] obtain b xt xv d where
      "trace (snd (run_train L fs)) =
         [NpLoad npy_path, TrainTestSplit (npy_decode L b) (2 / 10) 42] @ train_tail L xt xv d"
      by fastforce
    then show ?thesis by (simp add: train_tail_names) (simp add: train_order_def)
  qed
  have cs: "\<exists>k. map call_name (trace (snd (run_convert L fs'))) = convert_order k"
    if "fst (run_convert L fs') = Inr ()"
  proof -
    from run_convert_success[OF that] obtain b samples where
      "trace (snd (run_convert L fs')) =
         convert_head L b @ replicate (calibration_runs L (the_converter L b)) (NpLoad npy_path)
                  @ [OpenWb tflite_path, FileWrite tflite_path (tflite_bytes L (the_converter L b) samples)]"
      by fastforce
    then have "map call_name (trace (snd (run_convert L fs'))) = convert_order (calibration_runs L (the_converter L b))"
      by (simp add: convert_head_names convert_order_def)
    then show ?thesis ..
  qed
  from train_prefix[of L fs] convert_prefix[of L fs'] ts cs show ?thesis by simp
qed

theorem fixed_linear_order_witness:
  "fst (run_train lib_0 files_2d) = Inr () \<and> fst (run_convert lib_0 files_h5) = Inr ()
   \<and> map call_name (trace (snd (run_train lib_0 files_2d))) = train_order
   \<and> (\<exists>k. map call_name (trace (snd (run_convert lib_0 files_h5))) = convert_order k)"
proof -
  have ok: "fst (run_train lib_0 files_2d) = Inr ()" "fst (run_convert lib_0 files_h5) = Inr ()"
    by (simp_all add: run_train_0 run_convert_0)
  from fixed_linear_order[of lib_0 files_2d files_h5] ok show ?thesis by simp
qed



section \<open>The split is deterministic and a partition\<close>




end
